theory Spec2Isabelle
  imports Main "HOL-Library.Word" "HOL-Library.Sublist"
begin

unbundle bit_operations_syntax

section \<open>Status codes (lib/tpm2\_error.h)\<close>

text \<open>
  \<^verbatim>\<open>TSS2_RC\<close> is a 32-bit unsigned value, \<^verbatim>\<open>UINT16\<close> and \<^verbatim>\<open>UINT8\<close> are 16 and 8 bits wide.
\<close>

type_synonym TSS2_RC = "32 word"
type_synonym UINT16 = "16 word"
type_synonym UINT8 = "8 word"

definition TPM2_ERROR_TSS2_RC_ERROR_MASK :: TSS2_RC where
  "TPM2_ERROR_TSS2_RC_ERROR_MASK = 0xFFFF"

text \<open>
  \<^verbatim>\<open>static inline UINT16 tpm2_error_get(TSS2_RC rc) { return ((rc & TPM2_ERROR_TSS2_RC_ERROR_MASK)); }\<close>
  The masked 32-bit value is converted to the 16-bit return type (\<open>ucast\<close>).
\<close>

definition tpm2_error_get :: "TSS2_RC \<Rightarrow> UINT16" where
  "tpm2_error_get rc = ucast (rc AND TPM2_ERROR_TSS2_RC_ERROR_MASK)"

section \<open>The tool return codes (lib/tpm2\_error.h)\<close>

datatype tool_rc =
    tool_rc_success
  | tool_rc_general_error
  | tool_rc_option_error
  | tool_rc_auth_error
  | tool_rc_tcti_error
  | tool_rc_unsupported

text \<open>
  The enumerators in the order of the declaration. The first one is given the value 0
  explicitly; C gives every later enumerator the value of its predecessor plus one, so
  the value of an enumerator is its position in the declaration.
\<close>

definition tool_rc_enumerators :: "tool_rc list" where
  "tool_rc_enumerators =
     [tool_rc_success, tool_rc_general_error, tool_rc_option_error,
      tool_rc_auth_error, tool_rc_tcti_error, tool_rc_unsupported]"

fun enum_position :: "'a list \<Rightarrow> 'a \<Rightarrow> nat" where
  "enum_position [] x = 0"
| "enum_position (y # ys) x = (if x = y then 0 else Suc (enum_position ys x))"

definition tool_rc_value :: "tool_rc \<Rightarrow> nat" where
  "tool_rc_value r = 0 + enum_position tool_rc_enumerators r"

text \<open>
  Modelled from the spec: the body of \<^verbatim>\<open>tool_rc_from_tpm\<close> (lib/tpm2\_error.c) is not among
  the sources; only its declaration is. The spec (4.3) describes it as a pure function of
  the extracted error bits through a fixed, ordered set of rules: success bits map to
  success, known option/usage failures to option error, known authorization failures to
  authorization error, known transport failures to transport error, known unsupported
  indications to unsupported, everything else to general error. Which error bits are
  "known" for each class is not stated, so the four tests are parameters.
\<close>

record classify_rules =
  is_option_failure :: "UINT16 \<Rightarrow> bool"
  is_auth_failure :: "UINT16 \<Rightarrow> bool"
  is_tcti_failure :: "UINT16 \<Rightarrow> bool"
  is_unsupported :: "UINT16 \<Rightarrow> bool"

definition tool_rc_from_tpm :: "classify_rules \<Rightarrow> TSS2_RC \<Rightarrow> tool_rc" where
  "tool_rc_from_tpm rules rc =
     (let err_bits = tpm2_error_get rc in
      if err_bits = 0 then tool_rc_success
      else if is_option_failure rules err_bits then tool_rc_option_error
      else if is_auth_failure rules err_bits then tool_rc_auth_error
      else if is_tcti_failure rules err_bits then tool_rc_tcti_error
      else if is_unsupported rules err_bits then tool_rc_unsupported
      else tool_rc_general_error)"

section \<open>Rendering numbers\<close>

text \<open>
  The decimal (\<^verbatim>\<open>%u\<close>) and hexadecimal renderings of an unsigned number, without leading
  zeros. The spec writes the hexadecimal fallback as \<^verbatim>\<open>0x3\<close> and does not fix the case of
  the digits above 9; capitals are used here.
\<close>

definition digit_char :: "nat \<Rightarrow> char" where
  "digit_char d = ''0123456789ABCDEF'' ! d"

fun to_dec :: "nat \<Rightarrow> string" where
  "to_dec n = (if n < 10 then [digit_char n] else to_dec (n div 10) @ [digit_char (n mod 10)])"

fun to_hex :: "nat \<Rightarrow> string" where
  "to_hex n = (if n < 16 then [digit_char n] else to_hex (n div 16) @ [digit_char (n mod 16)])"

declare to_dec.simps [simp del]
declare to_hex.simps [simp del]

section \<open>The layer registry and the decoder (lib/tpm2\_error.c, modelled from the spec)\<close>

text \<open>
  \<^verbatim>\<open>typedef const char *(*tpm2_error_handler)(TSS2_RC rc);\<close>
  A handler receives the status code with only the error bits set and returns a string,
  or \<^verbatim>\<open>NULL\<close> (\<open>None\<close>) when it cannot decode the value.
\<close>

type_synonym tpm2_error_handler = "TSS2_RC \<Rightarrow> string option"

text \<open>
  The layer field. \<^verbatim>\<open>TSS2_RC_LAYER_SHIFT\<close> and \<^verbatim>\<open>TSS2_RC_LAYER_MASK\<close> come from the TSS2
  headers (16 and \<^verbatim>\<open>0xFF0000\<close>); the header of this library derives the layer count from
  them.
\<close>

definition TSS2_RC_LAYER_SHIFT :: nat where
  "TSS2_RC_LAYER_SHIFT = 16"

definition TSS2_RC_LAYER_MASK :: TSS2_RC where
  "TSS2_RC_LAYER_MASK = 0xFF0000"

definition TPM2_ERROR_TSS2_RC_LAYER_COUNT :: TSS2_RC where
  "TPM2_ERROR_TSS2_RC_LAYER_COUNT = drop_bit TSS2_RC_LAYER_SHIFT TSS2_RC_LAYER_MASK"

text \<open>
  Modelled from the spec: the layer extraction of lib/tpm2\_error.c, which is not among the
  sources. Spec 4.2 step 1: \<^verbatim>\<open>layer = (code >> layerShift) & layerMask\<close>, an 8-bit layer id.
\<close>

definition tss2_rc_layer_number_get :: "TSS2_RC \<Rightarrow> UINT8" where
  "tss2_rc_layer_number_get rc =
     ucast (drop_bit TSS2_RC_LAYER_SHIFT rc AND TPM2_ERROR_TSS2_RC_LAYER_COUNT)"

text \<open>The reserved layers, as the header lists them.\<close>

definition TSS2_TPM_RC_LAYER :: UINT8 where "TSS2_TPM_RC_LAYER = 0"
definition TSS2_SYS_RC_LAYER :: UINT8 where "TSS2_SYS_RC_LAYER = 8"
definition TSS2_MU_RC_LAYER :: UINT8 where "TSS2_MU_RC_LAYER = 9"
definition TSS2_TCTI_RC_LAYER :: UINT8 where "TSS2_TCTI_RC_LAYER = 10"

definition is_reserved_layer :: "UINT8 \<Rightarrow> bool" where
  "is_reserved_layer layer \<longleftrightarrow>
     layer = TSS2_TPM_RC_LAYER \<or> layer = TSS2_SYS_RC_LAYER \<or>
     layer = TSS2_MU_RC_LAYER \<or> layer = TSS2_TCTI_RC_LAYER"

text \<open>
  Modelled from the spec: the registry of lib/tpm2\_error.c, which is not among the sources.
  Spec 3: a LayerEntry has a name of 1 to 4 characters and an optional decoder; the
  LayerRegistry maps a layer id to its entry, and an unregistered id has no entry.
\<close>

record layer_entry =
  layer_name :: string
  layer_decoder :: "tpm2_error_handler option"

type_synonym layer_registry = "UINT8 \<rightharpoonup> layer_entry"



definition lookup :: "layer_registry \<Rightarrow> UINT8 \<Rightarrow> layer_entry option" where
  "lookup reg layer = reg layer"

text \<open>
  Modelled from the spec: the body of \<^verbatim>\<open>tpm2_error_str\<close> is not among the sources.
  Spec 4.2, steps 1 to 6: the layer-name component is the entry's short name, or the
  decimal layer id when there is no entry; the message component is \<^verbatim>\<open>success\<close> when the
  error bits are 0, else what the entry's decoder returns for the error bits, else the
  error bits in hexadecimal; the result is \<^verbatim>\<open><layer-name>:<message>\<close>.
\<close>

definition layer_name_component :: "layer_registry \<Rightarrow> UINT8 \<Rightarrow> string" where
  "layer_name_component reg layer =
     (case lookup reg layer of
        None \<Rightarrow> to_dec (unat layer)
      | Some e \<Rightarrow> layer_name e)"

definition unknown_layer_handler :: "UINT16 \<Rightarrow> string" where
  "unknown_layer_handler err_bits = ''0x'' @ to_hex (unat err_bits)"

definition decoder_message :: "layer_registry \<Rightarrow> UINT8 \<Rightarrow> UINT16 \<Rightarrow> string option" where
  "decoder_message reg layer err_bits =
     (case lookup reg layer of
        None \<Rightarrow> None
      | Some e \<Rightarrow>
          (case layer_decoder e of
             None \<Rightarrow> None
           | Some h \<Rightarrow> h (ucast err_bits)))"

definition message_component :: "layer_registry \<Rightarrow> UINT8 \<Rightarrow> UINT16 \<Rightarrow> string" where
  "message_component reg layer err_bits =
     (if err_bits = 0 then ''success''
      else case decoder_message reg layer err_bits of
        Some m \<Rightarrow> m
      | None \<Rightarrow> unknown_layer_handler err_bits)"

definition tpm2_error_str :: "layer_registry \<Rightarrow> TSS2_RC \<Rightarrow> string" where
  "tpm2_error_str reg rc =
     (let layer = tss2_rc_layer_number_get rc;
          err_bits = tpm2_error_get rc
      in layer_name_component reg layer @ '':'' @ message_component reg layer err_bits)"

section \<open>The built-in decoder of the device layer (modelled from the spec)\<close>

text \<open>
  Modelled from the spec: the device-layer decoder of lib/tpm2\_error.c is not among the
  sources. Spec 4.2 gives its behaviour and leaves the bit offsets and the description
  tables to the layout the header cites (TPM 2.0 Part 2, 6.6): bit 7 selects the format;
  in format 1 bit 6 marks a parameter, bits 8 to 11 are the field N (its top bit
  separates sessions from handles, its low three bits are the index) and bits 0 to 5 are
  the sub-code; in format 0 bit 11 is the severity, bit 8 the version and bits 0 to 6
  the code index. The description tables are parameters. The format 1 table is a total
  function of the sub-code (by the spec an out-of-range sub-code yields the table's own
  sentinel entry, never a failure); a format 0 table is a list whose entries may be
  unknown (\<open>None\<close>, rendered as the placeholder), and an index beyond it is a decode
  failure.
\<close>

record tpm_tables =
  fmt1_description :: "nat \<Rightarrow> string"
  fmt0_err_strs :: "string option list"
  fmt0_warn_strs :: "string option list"
  fmt0_placeholder :: string

definition tss2_rc_layer_format_get :: "TSS2_RC \<Rightarrow> bool" where
  "tss2_rc_layer_format_get rc = bit rc 7"

definition tpm2_rc_fmt1_N_get :: "TSS2_RC \<Rightarrow> TSS2_RC" where
  "tpm2_rc_fmt1_N_get rc = drop_bit 8 rc AND 0xF"

definition tpm2_rc_fmt1_N_index_get :: "TSS2_RC \<Rightarrow> TSS2_RC" where
  "tpm2_rc_fmt1_N_index_get rc = tpm2_rc_fmt1_N_get rc AND 0x7"

definition tpm2_rc_fmt1_N_is_handle :: "TSS2_RC \<Rightarrow> bool" where
  "tpm2_rc_fmt1_N_is_handle rc \<longleftrightarrow> tpm2_rc_fmt1_N_get rc AND 0x8 = 0"

definition tpm2_rc_fmt1_P_get :: "TSS2_RC \<Rightarrow> bool" where
  "tpm2_rc_fmt1_P_get rc = bit rc 6"

definition tpm2_rc_fmt1_error_get :: "TSS2_RC \<Rightarrow> TSS2_RC" where
  "tpm2_rc_fmt1_error_get rc = rc AND 0x3F"

definition fmt1_kind :: "TSS2_RC \<Rightarrow> string" where
  "fmt1_kind rc =
     (if tpm2_rc_fmt1_P_get rc then ''parameter''
      else if tpm2_rc_fmt1_N_is_handle rc then ''handle''
      else ''session'')"

definition fmt1_index :: "TSS2_RC \<Rightarrow> string" where
  "fmt1_index rc =
     (let index = tpm2_rc_fmt1_N_index_get rc in
      if index = 0 then ''unk'' else to_dec (unat index))"

definition tpm2_err_handler_fmt1 :: "tpm_tables \<Rightarrow> tpm2_error_handler" where
  "tpm2_err_handler_fmt1 T rc =
     Some (fmt1_kind rc @ ''('' @ fmt1_index rc @ ''):'' @
           fmt1_description T (unat (tpm2_rc_fmt1_error_get rc)))"

definition tpm2_rc_fmt0_S_get :: "TSS2_RC \<Rightarrow> bool" where
  "tpm2_rc_fmt0_S_get rc = bit rc 11"

definition tpm2_rc_fmt0_V_get :: "TSS2_RC \<Rightarrow> bool" where
  "tpm2_rc_fmt0_V_get rc = bit rc 8"

definition tpm2_rc_fmt0_error_get :: "TSS2_RC \<Rightarrow> TSS2_RC" where
  "tpm2_rc_fmt0_error_get rc = rc AND 0x7F"

definition tpm2_err_handler_fmt0 :: "tpm_tables \<Rightarrow> tpm2_error_handler" where
  "tpm2_err_handler_fmt0 T rc =
     (let severity = (if tpm2_rc_fmt0_S_get rc then ''warn'' else ''error'');
          version = (if tpm2_rc_fmt0_V_get rc then ''2.0'' else ''1.2'');
          selection = (if tpm2_rc_fmt0_S_get rc then fmt0_warn_strs T else fmt0_err_strs T);
          errnum = unat (tpm2_rc_fmt0_error_get rc)
      in if errnum \<ge> length selection then None
         else Some (severity @ ''('' @ version @ ''): '' @
                (case selection ! errnum of
                   None \<Rightarrow> fmt0_placeholder T
                 | Some m \<Rightarrow> m)))"

definition tpm2_ehandler :: "tpm_tables \<Rightarrow> tpm2_error_handler" where
  "tpm2_ehandler T rc =
     (if tss2_rc_layer_format_get rc then tpm2_err_handler_fmt1 T rc
      else tpm2_err_handler_fmt0 T rc)"

text \<open>
  Modelled from the spec: the registry at startup holds the built-in entries of the four
  reserved layers and nothing else (spec 2 and 3). The device layer is named \<^verbatim>\<open>tpm\<close> in the
  header's example (\<^verbatim>\<open>tpm:handle(5):...\<close>); the entries of the system, marshaling and
  transport layers are not described and are parameters.
\<close>

record builtin_layers =
  tpm_layer_tables :: tpm_tables
  sys_layer_entry :: layer_entry
  mu_layer_entry :: layer_entry
  tcti_layer_entry :: layer_entry

definition layer_handler_init :: "builtin_layers \<Rightarrow> layer_registry" where
  "layer_handler_init B =
     [TSS2_TPM_RC_LAYER \<mapsto>
        \<lparr>layer_name = ''tpm'', layer_decoder = Some (tpm2_ehandler (tpm_layer_tables B))\<rparr>,
      TSS2_SYS_RC_LAYER \<mapsto> sys_layer_entry B,
      TSS2_MU_RC_LAYER \<mapsto> mu_layer_entry B,
      TSS2_TCTI_RC_LAYER \<mapsto> tcti_layer_entry B]"

text \<open>
  An instance of the parameters, for running the decoder on concrete codes: a description
  table with the entries the header's examples quote, and plain names for the other three
  built-in layers.
\<close>

definition example_tables :: tpm_tables where
  "example_tables =
     \<lparr>fmt1_description =
        (\<lambda>n. if n = 4 then ''value is out of range or is not correct for the context''
             else ''unknown error num''),
      fmt0_err_strs = [None, Some ''bad tag''],
      fmt0_warn_strs = [None, Some ''gap for context ID is too large''],
      fmt0_placeholder = ''unknown''\<rparr>"

definition example_builtins :: builtin_layers where
  "example_builtins =
     \<lparr>tpm_layer_tables = example_tables,
      sys_layer_entry = \<lparr>layer_name = ''sys'', layer_decoder = None\<rparr>,
      mu_layer_entry = \<lparr>layer_name = ''mu'', layer_decoder = None\<rparr>,
      tcti_layer_entry = \<lparr>layer_name = ''tcti'', layer_decoder = None\<rparr>\<rparr>"

section \<open>Hierarchy option parsing (lib/tpm2\_hierarchy.c)\<close>

text \<open>
  C strings are modelled as \<open>string\<close>, the bytes before the terminating NUL (a list that
  contains no NUL byte); a \<^verbatim>\<open>const char *\<close> that may be \<^verbatim>\<open>NULL\<close> is a \<open>string option\<close>.
  Reading at the end of the list reads the terminator.
\<close>

definition strlen :: "string \<Rightarrow> nat" where
  "strlen s = length s"

fun cstr_head :: "string \<Rightarrow> nat" where
  "cstr_head [] = 0"
| "cstr_head (c # cs) = of_char c"

text \<open>
  \<^verbatim>\<open>strncmp\<close> compares at most \<open>n\<close> bytes and stops after a NUL; the result is 0 when no
  difference was found, else the difference of the two bytes (only its being 0 is used).
\<close>

fun strncmp :: "string \<Rightarrow> string \<Rightarrow> nat \<Rightarrow> int" where
  "strncmp s1 s2 0 = 0"
| "strncmp s1 s2 (Suc n) =
     (let c1 = cstr_head s1; c2 = cstr_head s2 in
      if c1 \<noteq> c2 then int c1 - int c2
      else if c1 = 0 then 0
      else strncmp (tl s1) (tl s2) n)"

text \<open>
  \<^verbatim>\<open>TPMI_RH_PROVISION\<close> is a 32-bit handle. The permanent handles are the values of the TSS2
  headers (TPM 2.0 Part 2).
\<close>

type_synonym TPMI_RH_PROVISION = "32 word"

definition TPM2_RH_OWNER :: TPMI_RH_PROVISION where "TPM2_RH_OWNER = 0x40000001"
definition TPM2_RH_NULL :: TPMI_RH_PROVISION where "TPM2_RH_NULL = 0x40000007"
definition TPM2_RH_LOCKOUT :: TPMI_RH_PROVISION where "TPM2_RH_LOCKOUT = 0x4000000A"
definition TPM2_RH_ENDORSEMENT :: TPMI_RH_PROVISION where "TPM2_RH_ENDORSEMENT = 0x4000000B"
definition TPM2_RH_PLATFORM :: TPMI_RH_PROVISION where "TPM2_RH_PLATFORM = 0x4000000C"

text \<open>
  The enumerators of \<^verbatim>\<open>tpm2_hierarchy_flags\<close> are declared in lib/tpm2\_hierarchy.h, which is
  not among the sources: their values are parameters.
\<close>

record tpm2_hierarchy_flag_bits =
  TPM2_HIERARCHY_FLAGS_O :: "32 word"
  TPM2_HIERARCHY_FLAGS_P :: "32 word"
  TPM2_HIERARCHY_FLAGS_E :: "32 word"
  TPM2_HIERARCHY_FLAGS_N :: "32 word"
  TPM2_HIERARCHY_FLAGS_L :: "32 word"

text \<open>
  \<^verbatim>\<open>tpm2_util_string_to_uint32(value, hierarchy)\<close> is defined in lib/tpm2\_util.c, which is
  not among the sources: it is a parameter that takes the string and the current content
  of the output location and returns its result and the content afterwards.

  \<open>tpm2_hierarchy_from_optarg\<close> takes the content of \<^verbatim>\<open>*hierarchy\<close> before the call and
  returns the result together with the content of \<^verbatim>\<open>*hierarchy\<close> after the call. The
  messages of \<^verbatim>\<open>LOG_ERR\<close> are not modelled.
\<close>

type_synonym string_to_uint32 = "string \<Rightarrow> 32 word \<Rightarrow> bool \<times> 32 word"

definition tpm2_hierarchy_from_optarg ::
    "string_to_uint32 \<Rightarrow> tpm2_hierarchy_flag_bits \<Rightarrow>
     string option \<Rightarrow> TPMI_RH_PROVISION \<Rightarrow> 32 word \<Rightarrow> bool \<times> TPMI_RH_PROVISION" where
  "tpm2_hierarchy_from_optarg tpm2_util_string_to_uint32 F value hierarchy flags =
     (case value of
        None \<Rightarrow> (False, hierarchy)
      | Some v \<Rightarrow>
          if cstr_head v = 0 then (False, hierarchy)
          else
            let h0 = 0;
                is_o = (strncmp v ''owner'' (strlen v) = 0);
                h1 = (if is_o then TPM2_RH_OWNER else h0);
                is_p = (strncmp v ''platform'' (strlen v) = 0);
                h2 = (if is_p then TPM2_RH_PLATFORM else h1);
                is_e = (strncmp v ''endorsement'' (strlen v) = 0);
                h3 = (if is_e then TPM2_RH_ENDORSEMENT else h2);
                is_n = (strncmp v ''null'' (strlen v) = 0);
                h4 = (if is_n then TPM2_RH_NULL else h3);
                is_l = (strncmp v ''lockout'' (strlen v) = 0);
                h5 = (if is_l then TPM2_RH_LOCKOUT else h4);
                (result, h) = (if h5 = 0 then tpm2_util_string_to_uint32 v h5 else (True, h5))
            in
              if \<not> result then (False, h)
              else if flags AND TPM2_HIERARCHY_FLAGS_O F = 0 \<and> h = TPM2_RH_OWNER then (False, h)
              else if flags AND TPM2_HIERARCHY_FLAGS_P F = 0 \<and> h = TPM2_RH_PLATFORM then (False, h)
              else if flags AND TPM2_HIERARCHY_FLAGS_E F = 0 \<and> h = TPM2_RH_ENDORSEMENT then (False, h)
              else if flags AND TPM2_HIERARCHY_FLAGS_N F = 0 \<and> h = TPM2_RH_NULL then (False, h)
              else if flags AND TPM2_HIERARCHY_FLAGS_L F = 0 \<and> h = TPM2_RH_LOCKOUT then (False, h)
              else (result, h))"

text \<open>
  Two auxiliary functions for stating results: the hierarchy the five comparisons of lines
  41 to 64 leave in \<^verbatim>\<open>*hierarchy\<close> (0 when none matches; a later match overrides an earlier
  one), and the checks from line 74 to the end on their own.
\<close>

definition hierarchy_of_token :: "string \<Rightarrow> TPMI_RH_PROVISION" where
  "hierarchy_of_token v =
     (if prefix v ''lockout'' then TPM2_RH_LOCKOUT
      else if prefix v ''null'' then TPM2_RH_NULL
      else if prefix v ''endorsement'' then TPM2_RH_ENDORSEMENT
      else if prefix v ''platform'' then TPM2_RH_PLATFORM
      else if prefix v ''owner'' then TPM2_RH_OWNER
      else 0)"

definition hierarchy_filter :: "tpm2_hierarchy_flag_bits \<Rightarrow> 32 word \<Rightarrow> bool \<times> TPMI_RH_PROVISION \<Rightarrow> bool \<times> TPMI_RH_PROVISION" where
  "hierarchy_filter F flags p =
     (case p of (result, h) \<Rightarrow>
      if \<not> result then (False, h)
      else if flags AND TPM2_HIERARCHY_FLAGS_O F = 0 \<and> h = TPM2_RH_OWNER then (False, h)
      else if flags AND TPM2_HIERARCHY_FLAGS_P F = 0 \<and> h = TPM2_RH_PLATFORM then (False, h)
      else if flags AND TPM2_HIERARCHY_FLAGS_E F = 0 \<and> h = TPM2_RH_ENDORSEMENT then (False, h)
      else if flags AND TPM2_HIERARCHY_FLAGS_N F = 0 \<and> h = TPM2_RH_NULL then (False, h)
      else if flags AND TPM2_HIERARCHY_FLAGS_L F = 0 \<and> h = TPM2_RH_LOCKOUT then (False, h)
      else (result, h))"

section \<open>Releasing the outputs of a primary object (lib/tpm2\_hierarchy.c)\<close>

text \<open>
  A pointer is \<^verbatim>\<open>NULL\<close> (\<open>None\<close>) or the address of a block; the heap is the set of the
  blocks that are allocated. \<^verbatim>\<open>free(NULL)\<close> does nothing, \<^verbatim>\<open>free\<close> of an allocated block
  releases it, and \<^verbatim>\<open>free\<close> of anything else is undefined behaviour (\<open>None\<close>).
\<close>

type_synonym addr = nat
type_synonym pointer = "addr option"
type_synonym heap = "addr set"

definition c_free :: "pointer \<Rightarrow> heap \<Rightarrow> heap option" where
  "c_free p H =
     (case p of
        None \<Rightarrow> Some H
      | Some a \<Rightarrow> if a \<in> H then Some (H - {a}) else None)"

text \<open>
  \<^verbatim>\<open>tpm2_hierarchy_pdata\<close> is declared in lib/tpm2\_hierarchy.h, which is not among the
  sources. The fields the code of lib/tpm2\_hierarchy.c names are \<^verbatim>\<open>in\<close> (kept whole here)
  and \<^verbatim>\<open>out.handle\<close>, \<^verbatim>\<open>out.public\<close>, \<^verbatim>\<open>out.hash\<close>, \<^verbatim>\<open>out.creation.data\<close> and
  \<^verbatim>\<open>out.creation.ticket\<close>.
\<close>

record 'i tpm2_hierarchy_pdata =
  pdata_in :: 'i
  out_handle :: "32 word"
  out_public :: pointer
  out_hash :: pointer
  out_creation_data :: pointer
  out_creation_ticket :: pointer

definition tpm2_hierarchy_pdata_free ::
    "'i tpm2_hierarchy_pdata \<Rightarrow> heap \<Rightarrow> ('i tpm2_hierarchy_pdata \<times> heap) option" where
  "tpm2_hierarchy_pdata_free objdata H =
     (case c_free (out_creation_data objdata) H of
        None \<Rightarrow> None
      | Some H1 \<Rightarrow>
          let o1 = objdata\<lparr>out_creation_data := None\<rparr> in
          (case c_free (out_creation_ticket o1) H1 of
             None \<Rightarrow> None
           | Some H2 \<Rightarrow>
               let o2 = o1\<lparr>out_creation_ticket := None\<rparr> in
               (case c_free (out_hash o2) H2 of
                  None \<Rightarrow> None
                | Some H3 \<Rightarrow>
                    let o3 = o2\<lparr>out_hash := None\<rparr> in
                    (case c_free (out_public o3) H3 of
                       None \<Rightarrow> None
                     | Some H4 \<Rightarrow> Some (o3\<lparr>out_public := None\<rparr>, H4)))))"

section \<open>Properties of the status code views\<close>

text \<open>
  C7. For every 32-bit status code \<open>rc\<close>, \<open>tpm2_error_get rc\<close> is \<open>rc\<close> masked to its
  low 16 bits: read as a number it is \<open>rc mod 2^16\<close>, and widened back to 32 bits it is
  \<open>rc AND 0xFFFF\<close>. It is a function of the value alone.
\<close>

theorem tpm2_error_get_low16:
  "unat (tpm2_error_get rc) = unat rc mod 2 ^ 16 \<and>
   (ucast (tpm2_error_get rc) :: TSS2_RC) = rc AND 0xFFFF"
proof -
  have m: "(0xFFFF :: TSS2_RC) = mask 16"
    by (simp add: mask_eq_exp_minus_1)
  have "unat (ucast (take_bit 16 rc) :: UINT16) = take_bit 16 (unat (take_bit 16 rc))"
    by (simp add: unsigned_ucast_eq)
  also have "\<dots> = take_bit 16 (unat rc)"
    by (simp add: unsigned_take_bit_eq)
  finally have a: "unat (tpm2_error_get rc) = unat rc mod 2 ^ 16"
    unfolding tpm2_error_get_def TPM2_ERROR_TSS2_RC_ERROR_MASK_def m
    by (simp add: take_bit_eq_mod flip: take_bit_eq_mask)
  have b: "(ucast (tpm2_error_get rc) :: TSS2_RC) = rc AND 0xFFFF"
    unfolding tpm2_error_get_def TPM2_ERROR_TSS2_RC_ERROR_MASK_def m
    by (rule bit_word_eqI) (auto simp: bit_simps)
  from a b show ?thesis by blast
qed

text \<open>
  C6. The enumeration \<open>tool_rc\<close> has exactly six values, with the ordinals
  0 = success, 1 = general error, 2 = option error, 3 = authorization error,
  4 = transport (TCTI) error, 5 = unsupported, and whatever \<open>tool_rc_from_tpm\<close> returns
  is one of the six.
\<close>

theorem tool_rc_ordinals:
  "tool_rc_value tool_rc_success = 0 \<and>
   tool_rc_value tool_rc_general_error = 1 \<and>
   tool_rc_value tool_rc_option_error = 2 \<and>
   tool_rc_value tool_rc_auth_error = 3 \<and>
   tool_rc_value tool_rc_tcti_error = 4 \<and>
   tool_rc_value tool_rc_unsupported = 5 \<and>
   (UNIV :: tool_rc set) =
     {tool_rc_success, tool_rc_general_error, tool_rc_option_error,
      tool_rc_auth_error, tool_rc_tcti_error, tool_rc_unsupported} \<and>
   tool_rc_value ` UNIV = {0, 1, 2, 3, 4, 5} \<and>
   tool_rc_value (tool_rc_from_tpm rules rc) \<in> {0, 1, 2, 3, 4, 5}"
proof -
  have vals:
    "tool_rc_value tool_rc_success = 0" "tool_rc_value tool_rc_general_error = 1"
    "tool_rc_value tool_rc_option_error = 2" "tool_rc_value tool_rc_auth_error = 3"
    "tool_rc_value tool_rc_tcti_error = 4" "tool_rc_value tool_rc_unsupported = 5"
    by (simp_all add: tool_rc_value_def tool_rc_enumerators_def)
  have univ: "(UNIV :: tool_rc set) =
     {tool_rc_success, tool_rc_general_error, tool_rc_option_error,
      tool_rc_auth_error, tool_rc_tcti_error, tool_rc_unsupported}"
  proof -
    have "x \<in> {tool_rc_success, tool_rc_general_error, tool_rc_option_error,
      tool_rc_auth_error, tool_rc_tcti_error, tool_rc_unsupported}" for x :: tool_rc
      by (cases x) simp_all
    then show ?thesis by blast
  qed
  have img: "tool_rc_value ` UNIV = {0, 1, 2, 3, 4, 5}"
    by (subst univ) (simp add: vals)
  have "tool_rc_value (tool_rc_from_tpm rules rc) \<in> tool_rc_value ` UNIV"
    by (rule imageI) simp
  then have ret: "tool_rc_value (tool_rc_from_tpm rules rc) \<in> {0, 1, 2, 3, 4, 5}"
    by (simp only: img)
  from vals univ img ret show ?thesis by blast
qed

section \<open>Properties of the decoder\<close>

lemmas layer_defs = tss2_rc_layer_number_get_def TPM2_ERROR_TSS2_RC_LAYER_COUNT_def
  TSS2_RC_LAYER_SHIFT_def TSS2_RC_LAYER_MASK_def

lemmas error_get_defs = tpm2_error_get_def TPM2_ERROR_TSS2_RC_ERROR_MASK_def

lemmas reserved_defs = is_reserved_layer_def TSS2_TPM_RC_LAYER_def TSS2_SYS_RC_LAYER_def
  TSS2_MU_RC_LAYER_def TSS2_TCTI_RC_LAYER_def

lemmas render_defs = to_dec.simps to_hex.simps digit_char_def

lemma error_get_take_bit: "(ucast (tpm2_error_get rc) :: TSS2_RC) = take_bit 16 rc"
proof -
  have m: "(0xFFFF :: TSS2_RC) = mask 16"
    by (simp add: mask_eq_exp_minus_1)
  show ?thesis
    unfolding tpm2_error_get_def TPM2_ERROR_TSS2_RC_ERROR_MASK_def m
    by (rule bit_word_eqI) (auto simp: bit_simps)
qed

lemma format_low16: "tss2_rc_layer_format_get (take_bit 16 rc) = tss2_rc_layer_format_get rc"
  by (simp add: tss2_rc_layer_format_get_def bit_simps)

lemma P_low16: "tpm2_rc_fmt1_P_get (take_bit 16 rc) = tpm2_rc_fmt1_P_get rc"
  by (simp add: tpm2_rc_fmt1_P_get_def bit_simps)

lemma N_low16: "tpm2_rc_fmt1_N_get (take_bit 16 rc) = tpm2_rc_fmt1_N_get rc"
proof -
  have m: "(0xF :: TSS2_RC) = mask 4"
    by (simp add: mask_eq_exp_minus_1)
  show ?thesis
    unfolding tpm2_rc_fmt1_N_get_def m
    by (rule bit_word_eqI) (auto simp: bit_simps)
qed

lemma error_low16: "tpm2_rc_fmt1_error_get (take_bit 16 rc) = tpm2_rc_fmt1_error_get rc"
proof -
  have m: "(0x3F :: TSS2_RC) = mask 6"
    by (simp add: mask_eq_exp_minus_1)
  show ?thesis
    unfolding tpm2_rc_fmt1_error_get_def m
    by (rule bit_word_eqI) (auto simp: bit_simps)
qed

lemma fmt1_low16: "tpm2_err_handler_fmt1 T (take_bit 16 rc) = tpm2_err_handler_fmt1 T rc"
  by (simp add: tpm2_err_handler_fmt1_def fmt1_kind_def fmt1_index_def
      tpm2_rc_fmt1_N_index_get_def tpm2_rc_fmt1_N_is_handle_def P_low16 N_low16 error_low16)

lemma format_bit_error_get: "tss2_rc_layer_format_get rc \<Longrightarrow> tpm2_error_get rc \<noteq> 0"
proof
  assume f: "tss2_rc_layer_format_get rc" and z: "tpm2_error_get rc = 0"
  from z have "(ucast (tpm2_error_get rc) :: TSS2_RC) = 0" by simp
  then have "take_bit 16 rc = 0" by (simp only: error_get_take_bit)
  then have "\<not> bit (take_bit 16 rc) 7" by simp
  with f show False by (simp add: tss2_rc_layer_format_get_def bit_simps)
qed

lemma index_le_7: "unat (tpm2_rc_fmt1_N_index_get rc) \<le> 7"
proof -
  have "tpm2_rc_fmt1_N_index_get rc \<le> 7"
    unfolding tpm2_rc_fmt1_N_index_get_def by (rule word_and_le1)
  then show ?thesis by (simp add: word_le_nat_alt)
qed

lemma to_dec_digit: "n < 10 \<Longrightarrow> to_dec n = [digit_char n]"
  by (simp add: to_dec.simps)

lemma error_str_unfold:
  "tpm2_error_str reg rc =
     layer_name_component reg (tss2_rc_layer_number_get rc) @ '':'' @
     message_component reg (tss2_rc_layer_number_get rc) (tpm2_error_get rc)"
  by (simp add: tpm2_error_str_def Let_def)

lemma device_slot_message:
  assumes slot: "reg TSS2_TPM_RC_LAYER = layer_handler_init B TSS2_TPM_RC_LAYER"
    and layer: "tss2_rc_layer_number_get rc = TSS2_TPM_RC_LAYER"
  shows "layer_name_component reg (tss2_rc_layer_number_get rc) = ''tpm''"
    and "decoder_message reg (tss2_rc_layer_number_get rc) (tpm2_error_get rc) =
           tpm2_ehandler (tpm_layer_tables B) (take_bit 16 rc)"
proof -
  have init: "layer_handler_init B TSS2_TPM_RC_LAYER =
      Some \<lparr>layer_name = ''tpm'', layer_decoder = Some (tpm2_ehandler (tpm_layer_tables B))\<rparr>"
    by (simp add: layer_handler_init_def TSS2_TPM_RC_LAYER_def TSS2_SYS_RC_LAYER_def
        TSS2_MU_RC_LAYER_def TSS2_TCTI_RC_LAYER_def)
  show "layer_name_component reg (tss2_rc_layer_number_get rc) = ''tpm''"
    by (simp add: layer_name_component_def lookup_def layer slot init)
  show "decoder_message reg (tss2_rc_layer_number_get rc) (tpm2_error_get rc) =
           tpm2_ehandler (tpm_layer_tables B) (take_bit 16 rc)"
    by (simp add: decoder_message_def lookup_def layer slot init error_get_take_bit)
qed

text \<open>
  C1. \<open>tpm2_error_str\<close> is total: for every registry and every 32-bit status code it
  returns a non-empty string. When the error bits are not 0 and no decoder applies (no
  entry, an entry without decoder, or a decoder that returns nothing) the result is the
  layer-name component followed by the error bits in hexadecimal; in particular a format 0
  code of the device layer whose code index is outside the table is rendered that way.
\<close>

theorem tpm2_error_str_total:
  "tpm2_error_str reg rc \<noteq> [] \<and>
   (tpm2_error_get rc \<noteq> 0 \<and>
    decoder_message reg (tss2_rc_layer_number_get rc) (tpm2_error_get rc) = None \<longrightarrow>
      tpm2_error_str reg rc =
        layer_name_component reg (tss2_rc_layer_number_get rc) @ '':0x'' @
        to_hex (unat (tpm2_error_get rc))) \<and>
   (reg TSS2_TPM_RC_LAYER = layer_handler_init B TSS2_TPM_RC_LAYER \<and>
    tss2_rc_layer_number_get rc = TSS2_TPM_RC_LAYER \<and> tpm2_error_get rc \<noteq> 0 \<and>
    \<not> tss2_rc_layer_format_get rc \<and>
    length (if tpm2_rc_fmt0_S_get rc then fmt0_warn_strs (tpm_layer_tables B)
            else fmt0_err_strs (tpm_layer_tables B)) \<le> unat (tpm2_rc_fmt0_error_get rc) \<longrightarrow>
      tpm2_error_str reg rc = ''tpm:0x'' @ to_hex (unat (tpm2_error_get rc)))"
proof -
  have nonempty: "tpm2_error_str reg rc \<noteq> []"
    by (simp add: error_str_unfold)
  have fallback: "tpm2_error_str reg rc =
        layer_name_component reg (tss2_rc_layer_number_get rc) @ '':0x'' @
        to_hex (unat (tpm2_error_get rc))"
    if "tpm2_error_get rc \<noteq> 0"
      "decoder_message reg (tss2_rc_layer_number_get rc) (tpm2_error_get rc) = None"
    using that by (simp add: error_str_unfold message_component_def unknown_layer_handler_def)
  have device: "tpm2_error_str reg rc = ''tpm:0x'' @ to_hex (unat (tpm2_error_get rc))"
    if slot: "reg TSS2_TPM_RC_LAYER = layer_handler_init B TSS2_TPM_RC_LAYER"
      and layer: "tss2_rc_layer_number_get rc = TSS2_TPM_RC_LAYER"
      and nz: "tpm2_error_get rc \<noteq> 0"
      and f0: "\<not> tss2_rc_layer_format_get rc"
      and range: "length (if tpm2_rc_fmt0_S_get rc then fmt0_warn_strs (tpm_layer_tables B)
            else fmt0_err_strs (tpm_layer_tables B)) \<le> unat (tpm2_rc_fmt0_error_get rc)"
  proof -
    have S: "tpm2_rc_fmt0_S_get (take_bit 16 rc) = tpm2_rc_fmt0_S_get rc"
      by (simp add: tpm2_rc_fmt0_S_get_def bit_simps)
    have m: "(0x7F :: TSS2_RC) = mask 7"
      by (simp add: mask_eq_exp_minus_1)
    have E: "tpm2_rc_fmt0_error_get (take_bit 16 rc) = tpm2_rc_fmt0_error_get rc"
      unfolding tpm2_rc_fmt0_error_get_def m
      by (rule bit_word_eqI) (auto simp: bit_simps)
    have "tpm2_ehandler (tpm_layer_tables B) (take_bit 16 rc) = None"
      using f0 range
      by (simp add: tpm2_ehandler_def format_low16 tpm2_err_handler_fmt0_def Let_def S E)
    then have "decoder_message reg (tss2_rc_layer_number_get rc) (tpm2_error_get rc) = None"
      using device_slot_message(2) [of reg B rc] slot layer by simp
    from fallback [OF nz this] show ?thesis
      using device_slot_message(1) [of reg B rc] slot layer by simp
  qed
  from nonempty fallback device show ?thesis by blast
qed

theorem tpm2_error_str_total_witness:
  "tpm2_error_get 0x00FFABCD \<noteq> 0 \<and>
   decoder_message (layer_handler_init example_builtins)
     (tss2_rc_layer_number_get 0x00FFABCD) (tpm2_error_get 0x00FFABCD) = None \<and>
   tpm2_error_str (layer_handler_init example_builtins) 0x00FFABCD = ''255:0xABCD'' \<and>
   tss2_rc_layer_number_get 0x0000017F = TSS2_TPM_RC_LAYER \<and>
   tpm2_error_get 0x0000017F \<noteq> 0 \<and> \<not> tss2_rc_layer_format_get 0x0000017F \<and>
   length (fmt0_err_strs (tpm_layer_tables example_builtins)) \<le> unat (tpm2_rc_fmt0_error_get 0x0000017F) \<and>
   tpm2_error_str (layer_handler_init example_builtins) 0x0000017F = ''tpm:0x17F''"
proof -
  have e: "tpm2_error_get 0x00FFABCD = 0xABCD" "tpm2_error_get 0x0000017F = 0x17F"
    by (simp_all add: error_get_defs)
  have l: "tss2_rc_layer_number_get 0x00FFABCD = 0xFF" "tss2_rc_layer_number_get 0x0000017F = 0"
    by (simp_all add: layer_defs)
  have d: "decoder_message (layer_handler_init example_builtins) 0xFF 0xABCD = None"
    by (simp add: decoder_message_def lookup_def layer_handler_init_def reserved_defs)
  have n: "layer_name_component (layer_handler_init example_builtins) 0xFF = ''255''"
    by (simp add: layer_name_component_def lookup_def layer_handler_init_def reserved_defs
        render_defs)
  have x: "to_hex 43981 = ''ABCD''" "to_hex 383 = ''17F''"
    by (simp_all add: render_defs)
  have f: "\<not> tss2_rc_layer_format_get 0x0000017F" "\<not> tpm2_rc_fmt0_S_get 0x0000017F"
    "tpm2_rc_fmt0_error_get 0x0000017F = 0x7F"
    by (simp_all add: tss2_rc_layer_format_get_def tpm2_rc_fmt0_S_get_def
        tpm2_rc_fmt0_error_get_def)
  have t: "length (fmt0_err_strs (tpm_layer_tables example_builtins)) = 2"
    by (simp add: example_builtins_def example_tables_def)
  from tpm2_error_str_total [of "layer_handler_init example_builtins" "0x00FFABCD" example_builtins]
    tpm2_error_str_total [of "layer_handler_init example_builtins" "0x0000017F" example_builtins]
  show ?thesis
    by (simp add: e l d n x f t TSS2_TPM_RC_LAYER_def)
qed

text \<open>
  C3. When the low 16 error bits of the status code are 0, the message component is
  \<^verbatim>\<open>success\<close> for every layer, registered or not: the result is the layer-name component
  (the entry's name, or the decimal layer id, as in \<^verbatim>\<open>0:success\<close>) followed by
  \<^verbatim>\<open>:success\<close>, whatever decoder the entry holds.
\<close>

theorem success_short_circuit:
  assumes "tpm2_error_get rc = 0"
  shows "message_component reg (tss2_rc_layer_number_get rc) (tpm2_error_get rc) = ''success'' \<and>
         tpm2_error_str reg rc =
           (case lookup reg (tss2_rc_layer_number_get rc) of
              None \<Rightarrow> to_dec (unat (tss2_rc_layer_number_get rc))
            | Some e \<Rightarrow> layer_name e) @ '':success'' \<and>
         tpm2_error_str (reg(tss2_rc_layer_number_get rc \<mapsto> \<lparr>layer_name = name, layer_decoder = d\<rparr>)) rc =
           name @ '':success''"
  using assms
  by (simp add: error_str_unfold message_component_def layer_name_component_def lookup_def)

theorem success_short_circuit_witness:
  "tpm2_error_get 0 = 0 \<and> tpm2_error_str Map.empty 0 = ''0:success'' \<and>
   tpm2_error_get 0x00050000 = 0 \<and>
   tpm2_error_str [5 \<mapsto> \<lparr>layer_name = ''abc'', layer_decoder = Some (\<lambda>rc. Some ''bad thing'')\<rparr>] 0x00050000 =
     ''abc:success''"
proof -
  have e: "tpm2_error_get 0 = 0" "tpm2_error_get 0x00050000 = 0"
    by (simp_all add: error_get_defs)
  have l: "tss2_rc_layer_number_get 0 = 0" "tss2_rc_layer_number_get 0x00050000 = 5"
    by (simp_all add: layer_defs)
  from success_short_circuit [OF e(1), of Map.empty]
    success_short_circuit [OF e(2), of Map.empty "''abc''" "Some (\<lambda>rc. Some ''bad thing'')"]
  show ?thesis
    by (simp add: e l lookup_def render_defs)
qed





text \<open>
  C5. In the built-in decoder of the device layer, a format 1 code is rendered as
  \<^verbatim>\<open><kind>(<index>):<description>\<close>, where the kind is handle, session or parameter and the
  index is \<^verbatim>\<open>unk\<close> when the index field is 0 and the numeral of the index field (one digit,
  1 to 7) otherwise; decoding such a code of layer 0 puts the device layer's name in front.
\<close>

theorem device_fmt1_index:
  assumes "tss2_rc_layer_format_get rc"
  shows
    "tpm2_ehandler T rc =
       Some (fmt1_kind rc @ ''('' @
             (if tpm2_rc_fmt1_N_index_get rc = 0 then ''unk''
              else to_dec (unat (tpm2_rc_fmt1_N_index_get rc))) @ ''):'' @
             fmt1_description T (unat (tpm2_rc_fmt1_error_get rc))) \<and>
     fmt1_kind rc \<in> {''handle'', ''session'', ''parameter''} \<and>
     unat (tpm2_rc_fmt1_N_index_get rc) \<le> 7 \<and>
     to_dec (unat (tpm2_rc_fmt1_N_index_get rc)) = [digit_char (unat (tpm2_rc_fmt1_N_index_get rc))] \<and>
     (reg TSS2_TPM_RC_LAYER = layer_handler_init B TSS2_TPM_RC_LAYER \<and>
      tss2_rc_layer_number_get rc = TSS2_TPM_RC_LAYER \<longrightarrow>
        tpm2_error_str reg rc =
          ''tpm:'' @ fmt1_kind rc @ ''('' @
             (if tpm2_rc_fmt1_N_index_get rc = 0 then ''unk''
              else to_dec (unat (tpm2_rc_fmt1_N_index_get rc))) @ ''):'' @
             fmt1_description (tpm_layer_tables B) (unat (tpm2_rc_fmt1_error_get rc)))"
proof -
  have h: "tpm2_ehandler T rc =
       Some (fmt1_kind rc @ ''('' @
             (if tpm2_rc_fmt1_N_index_get rc = 0 then ''unk''
              else to_dec (unat (tpm2_rc_fmt1_N_index_get rc))) @ ''):'' @
             fmt1_description T (unat (tpm2_rc_fmt1_error_get rc)))" for T
    using assms
    by (simp add: tpm2_ehandler_def tpm2_err_handler_fmt1_def fmt1_index_def Let_def)
  have k: "fmt1_kind rc \<in> {''handle'', ''session'', ''parameter''}"
    by (simp add: fmt1_kind_def)
  note i = index_le_7 [of rc]
  then have d: "to_dec (unat (tpm2_rc_fmt1_N_index_get rc)) =
      [digit_char (unat (tpm2_rc_fmt1_N_index_get rc))]"
    by (intro to_dec_digit) simp
  have s: "tpm2_error_str reg rc =
          ''tpm:'' @ fmt1_kind rc @ ''('' @
             (if tpm2_rc_fmt1_N_index_get rc = 0 then ''unk''
              else to_dec (unat (tpm2_rc_fmt1_N_index_get rc))) @ ''):'' @
             fmt1_description (tpm_layer_tables B) (unat (tpm2_rc_fmt1_error_get rc))"
    if slot: "reg TSS2_TPM_RC_LAYER = layer_handler_init B TSS2_TPM_RC_LAYER"
      and layer: "tss2_rc_layer_number_get rc = TSS2_TPM_RC_LAYER"
  proof -
    have "tpm2_ehandler (tpm_layer_tables B) (take_bit 16 rc) =
        tpm2_ehandler (tpm_layer_tables B) rc"
      using assms by (simp add: tpm2_ehandler_def format_low16 fmt1_low16)
    then have m: "decoder_message reg (tss2_rc_layer_number_get rc) (tpm2_error_get rc) =
        tpm2_ehandler (tpm_layer_tables B) rc"
      using device_slot_message(2) [of reg B rc] slot layer by simp
    have n: "layer_name_component reg (tss2_rc_layer_number_get rc) = ''tpm''"
      using device_slot_message(1) [of reg B rc] slot layer by simp
    show ?thesis
      using format_bit_error_get [OF assms]
      by (simp add: error_str_unfold message_component_def m n h)
  qed
  from h k i d s show ?thesis by blast
qed

theorem device_fmt1_index_witness:
  "tss2_rc_layer_format_get 0x00000084 \<and> tss2_rc_layer_format_get 0x00000584 \<and>
   tpm2_error_str (layer_handler_init example_builtins) 0x00000084 =
     ''tpm:handle(unk):value is out of range or is not correct for the context'' \<and>
   tpm2_error_str (layer_handler_init example_builtins) 0x00000584 =
     ''tpm:handle(5):value is out of range or is not correct for the context'' \<and>
   tpm2_ehandler example_tables 0x000009C4 =
     Some ''parameter(1):value is out of range or is not correct for the context''"
proof -
  have f: "tss2_rc_layer_format_get 0x00000084" "tss2_rc_layer_format_get 0x00000584"
    "tss2_rc_layer_format_get 0x000009C4"
    by (simp_all add: tss2_rc_layer_format_get_def)
  have l: "tss2_rc_layer_number_get 0x00000084 = TSS2_TPM_RC_LAYER"
    "tss2_rc_layer_number_get 0x00000584 = TSS2_TPM_RC_LAYER"
    by (simp_all add: layer_defs TSS2_TPM_RC_LAYER_def)
  have v: "fmt1_kind 0x00000084 = ''handle''" "tpm2_rc_fmt1_N_index_get 0x00000084 = 0"
    "tpm2_rc_fmt1_error_get 0x00000084 = 4"
    "fmt1_kind 0x00000584 = ''handle''" "tpm2_rc_fmt1_N_index_get 0x00000584 = 5"
    "tpm2_rc_fmt1_error_get 0x00000584 = 4"
    "fmt1_kind 0x000009C4 = ''parameter''" "tpm2_rc_fmt1_N_index_get 0x000009C4 = 1"
    "tpm2_rc_fmt1_error_get 0x000009C4 = 4"
    by (simp_all add: fmt1_kind_def tpm2_rc_fmt1_P_get_def tpm2_rc_fmt1_N_is_handle_def
        tpm2_rc_fmt1_N_get_def tpm2_rc_fmt1_N_index_get_def tpm2_rc_fmt1_error_get_def)
  have t: "tpm_layer_tables example_builtins = example_tables"
    "fmt1_description example_tables 4 = ''value is out of range or is not correct for the context''"
    by (simp_all add: example_builtins_def example_tables_def)
  from device_fmt1_index [OF f(1), of example_tables "layer_handler_init example_builtins" example_builtins]
    device_fmt1_index [OF f(2), of example_tables "layer_handler_init example_builtins" example_builtins]
    device_fmt1_index [OF f(3), of example_tables "layer_handler_init example_builtins" example_builtins]
  show ?thesis
    by (simp add: f l v t render_defs)
qed

section \<open>Properties of the hierarchy parser\<close>

lemma of_char_eq_0_iff: "(of_char c :: nat) = 0 \<longleftrightarrow> c = CHR 0x00"
proof -
  have "(of_char c :: nat) = of_char (CHR 0x00) \<longleftrightarrow> c = CHR 0x00"
    by (simp only: of_char_eq_iff)
  then show ?thesis by simp
qed

lemma strncmp_prefix:
  "CHR 0x00 \<notin> set s1 \<Longrightarrow> strncmp s1 s2 (strlen s1) = 0 \<longleftrightarrow> prefix s1 s2"
proof (induction s1 arbitrary: s2)
  case Nil
  then show ?case by (simp add: strlen_def)
next
  case (Cons c cs)
  then have c0: "(of_char c :: nat) \<noteq> 0" and cs0: "CHR 0x00 \<notin> set cs"
    by (auto simp: of_char_eq_0_iff)
  show ?case
  proof (cases s2)
    case Nil
    with c0 show ?thesis by (simp add: strlen_def)
  next
    case (Cons d ds)
    with c0 Cons.IH [OF cs0, of ds] show ?thesis
      by (auto simp: strlen_def Let_def)
  qed
qed

lemma from_optarg_unfold:
  assumes "v \<noteq> []" and "CHR 0x00 \<notin> set v"
  shows "tpm2_hierarchy_from_optarg s2u F (Some v) h0 flags =
     hierarchy_filter F flags
       (if hierarchy_of_token v = 0 then s2u v 0 else (True, hierarchy_of_token v))"
proof -
  from assms obtain c cs where v: "v = c # cs" and c: "c \<noteq> CHR 0x00"
    by (cases v) auto
  then have hd: "cstr_head v \<noteq> 0"
    by (simp add: of_char_eq_0_iff)
  show ?thesis
    unfolding tpm2_hierarchy_from_optarg_def hierarchy_filter_def hierarchy_of_token_def
    using hd
    by (simp add: strncmp_prefix [OF assms(2)] Let_def split: prod.splits)
qed

lemmas rh_defs = TPM2_RH_OWNER_def TPM2_RH_PLATFORM_def TPM2_RH_ENDORSEMENT_def
  TPM2_RH_NULL_def TPM2_RH_LOCKOUT_def

lemma hierarchy_of_token_cases:
  assumes "v \<noteq> []"
  shows "prefix v ''owner'' \<Longrightarrow> hierarchy_of_token v = TPM2_RH_OWNER"
    and "prefix v ''platform'' \<Longrightarrow> hierarchy_of_token v = TPM2_RH_PLATFORM"
    and "prefix v ''endorsement'' \<Longrightarrow> hierarchy_of_token v = TPM2_RH_ENDORSEMENT"
    and "prefix v ''null'' \<Longrightarrow> hierarchy_of_token v = TPM2_RH_NULL"
    and "prefix v ''lockout'' \<Longrightarrow> hierarchy_of_token v = TPM2_RH_LOCKOUT"
    and "\<not> prefix v ''owner'' \<Longrightarrow> \<not> prefix v ''platform'' \<Longrightarrow> \<not> prefix v ''endorsement'' \<Longrightarrow>
         \<not> prefix v ''null'' \<Longrightarrow> \<not> prefix v ''lockout'' \<Longrightarrow> hierarchy_of_token v = 0"
proof -
  from assms obtain c cs where v: "v = c # cs" by (cases v) auto
  show "prefix v ''owner'' \<Longrightarrow> hierarchy_of_token v = TPM2_RH_OWNER"
    by (simp add: v hierarchy_of_token_def)
  show "prefix v ''platform'' \<Longrightarrow> hierarchy_of_token v = TPM2_RH_PLATFORM"
    by (simp add: v hierarchy_of_token_def)
  show "prefix v ''endorsement'' \<Longrightarrow> hierarchy_of_token v = TPM2_RH_ENDORSEMENT"
    by (simp add: v hierarchy_of_token_def)
  show "prefix v ''null'' \<Longrightarrow> hierarchy_of_token v = TPM2_RH_NULL"
    by (simp add: v hierarchy_of_token_def)
  show "prefix v ''lockout'' \<Longrightarrow> hierarchy_of_token v = TPM2_RH_LOCKOUT"
    by (simp add: v hierarchy_of_token_def)
  show "\<not> prefix v ''owner'' \<Longrightarrow> \<not> prefix v ''platform'' \<Longrightarrow> \<not> prefix v ''endorsement'' \<Longrightarrow>
         \<not> prefix v ''null'' \<Longrightarrow> \<not> prefix v ''lockout'' \<Longrightarrow> hierarchy_of_token v = 0"
    by (simp add: hierarchy_of_token_def)
qed

lemma prefix_token_no_nul:
  "prefix v ''owner'' \<or> prefix v ''platform'' \<or> prefix v ''endorsement'' \<or>
   prefix v ''null'' \<or> prefix v ''lockout'' \<Longrightarrow> CHR 0x00 \<notin> set v"
  by (auto dest!: set_mono_prefix)

text \<open>
  C9. Every non-empty prefix of \<^verbatim>\<open>owner\<close>, \<^verbatim>\<open>platform\<close>, \<^verbatim>\<open>endorsement\<close>, \<^verbatim>\<open>null\<close> and
  \<^verbatim>\<open>lockout\<close> (the lockout hierarchy included) is taken as that hierarchy: the output is
  the hierarchy's handle and the call succeeds exactly when the flags allow the hierarchy.
  Every other non-empty string is handed to the numeric parser, and the checks on the
  result and on the flags are applied to what that parser returns.
\<close>

theorem from_optarg_prefixes:
  assumes "v \<noteq> []" and "CHR 0x00 \<notin> set v"
  shows
    "(prefix v ''owner'' \<longrightarrow>
        tpm2_hierarchy_from_optarg s2u F (Some v) h0 flags =
          (flags AND TPM2_HIERARCHY_FLAGS_O F \<noteq> 0, TPM2_RH_OWNER)) \<and>
     (prefix v ''platform'' \<longrightarrow>
        tpm2_hierarchy_from_optarg s2u F (Some v) h0 flags =
          (flags AND TPM2_HIERARCHY_FLAGS_P F \<noteq> 0, TPM2_RH_PLATFORM)) \<and>
     (prefix v ''endorsement'' \<longrightarrow>
        tpm2_hierarchy_from_optarg s2u F (Some v) h0 flags =
          (flags AND TPM2_HIERARCHY_FLAGS_E F \<noteq> 0, TPM2_RH_ENDORSEMENT)) \<and>
     (prefix v ''null'' \<longrightarrow>
        tpm2_hierarchy_from_optarg s2u F (Some v) h0 flags =
          (flags AND TPM2_HIERARCHY_FLAGS_N F \<noteq> 0, TPM2_RH_NULL)) \<and>
     (prefix v ''lockout'' \<longrightarrow>
        tpm2_hierarchy_from_optarg s2u F (Some v) h0 flags =
          (flags AND TPM2_HIERARCHY_FLAGS_L F \<noteq> 0, TPM2_RH_LOCKOUT)) \<and>
     (\<not> prefix v ''owner'' \<and> \<not> prefix v ''platform'' \<and> \<not> prefix v ''endorsement'' \<and>
      \<not> prefix v ''null'' \<and> \<not> prefix v ''lockout'' \<longrightarrow>
        tpm2_hierarchy_from_optarg s2u F (Some v) h0 flags =
          hierarchy_filter F flags (s2u v 0))"
proof -
  note u = from_optarg_unfold [OF assms, of s2u F h0 flags]
  note t = hierarchy_of_token_cases [OF assms(1)]
  show ?thesis
    apply (intro conjI impI)
    subgoal by (simp add: u t(1) hierarchy_filter_def rh_defs)
    subgoal by (simp add: u t(2) hierarchy_filter_def rh_defs)
    subgoal by (simp add: u t(3) hierarchy_filter_def rh_defs)
    subgoal by (simp add: u t(4) hierarchy_filter_def rh_defs)
    subgoal by (simp add: u t(5) hierarchy_filter_def rh_defs)
    subgoal by (simp add: u t(6))
    done
qed

theorem from_optarg_prefixes_witness:
  "''own'' \<noteq> [] \<and> CHR 0x00 \<notin> set ''own'' \<and> prefix ''own'' ''owner'' \<and>
   tpm2_hierarchy_from_optarg (\<lambda>s h. (False, h))
     \<lparr>TPM2_HIERARCHY_FLAGS_O = 1, TPM2_HIERARCHY_FLAGS_P = 2, TPM2_HIERARCHY_FLAGS_E = 4,
      TPM2_HIERARCHY_FLAGS_N = 8, TPM2_HIERARCHY_FLAGS_L = 16\<rparr>
     (Some ''own'') 0 0x1F = (True, 0x40000001) \<and>
   ''0x81000000'' \<noteq> [] \<and> CHR 0x00 \<notin> set ''0x81000000'' \<and>
   \<not> prefix ''0x81000000'' ''owner'' \<and> \<not> prefix ''0x81000000'' ''platform'' \<and>
   \<not> prefix ''0x81000000'' ''endorsement'' \<and> \<not> prefix ''0x81000000'' ''null'' \<and>
   \<not> prefix ''0x81000000'' ''lockout'' \<and>
   tpm2_hierarchy_from_optarg (\<lambda>s h. if s = ''0x81000000'' then (True, 0x81000000) else (False, h))
     \<lparr>TPM2_HIERARCHY_FLAGS_O = 1, TPM2_HIERARCHY_FLAGS_P = 2, TPM2_HIERARCHY_FLAGS_E = 4,
      TPM2_HIERARCHY_FLAGS_N = 8, TPM2_HIERARCHY_FLAGS_L = 16\<rparr>
     (Some ''0x81000000'') 0 0x1F = (True, 0x81000000)"
  using from_optarg_prefixes [of "''own''" "\<lambda>s h. (False, h)"
     "\<lparr>TPM2_HIERARCHY_FLAGS_O = 1, TPM2_HIERARCHY_FLAGS_P = 2, TPM2_HIERARCHY_FLAGS_E = 4,
      TPM2_HIERARCHY_FLAGS_N = 8, TPM2_HIERARCHY_FLAGS_L = 16\<rparr>" 0 "0x1F"]
    from_optarg_prefixes [of "''0x81000000''"
     "\<lambda>s h. if s = ''0x81000000'' then (True, 0x81000000) else (False, h)"
     "\<lparr>TPM2_HIERARCHY_FLAGS_O = 1, TPM2_HIERARCHY_FLAGS_P = 2, TPM2_HIERARCHY_FLAGS_E = 4,
      TPM2_HIERARCHY_FLAGS_N = 8, TPM2_HIERARCHY_FLAGS_L = 16\<rparr>" 0 "0x1F"]
  by (simp add: rh_defs hierarchy_filter_def)

text \<open>
  C8. The parser is not atomic on failure: when the value is a non-empty prefix of a
  hierarchy token (for example \<^verbatim>\<open>o\<close>) and the flags lack that hierarchy, the call returns
  false and the output location holds the parsed hierarchy, whatever it held before. The
  same holds for a number the numeric parser accepted and the flags filter out.
\<close>

theorem from_optarg_overwrites_output:
  assumes "v \<noteq> []"
  shows
    "(prefix v ''owner'' \<and> flags AND TPM2_HIERARCHY_FLAGS_O F = 0 \<longrightarrow>
        tpm2_hierarchy_from_optarg s2u F (Some v) h0 flags = (False, TPM2_RH_OWNER)) \<and>
     (prefix v ''platform'' \<and> flags AND TPM2_HIERARCHY_FLAGS_P F = 0 \<longrightarrow>
        tpm2_hierarchy_from_optarg s2u F (Some v) h0 flags = (False, TPM2_RH_PLATFORM)) \<and>
     (prefix v ''endorsement'' \<and> flags AND TPM2_HIERARCHY_FLAGS_E F = 0 \<longrightarrow>
        tpm2_hierarchy_from_optarg s2u F (Some v) h0 flags = (False, TPM2_RH_ENDORSEMENT)) \<and>
     (prefix v ''null'' \<and> flags AND TPM2_HIERARCHY_FLAGS_N F = 0 \<longrightarrow>
        tpm2_hierarchy_from_optarg s2u F (Some v) h0 flags = (False, TPM2_RH_NULL)) \<and>
     (prefix v ''lockout'' \<and> flags AND TPM2_HIERARCHY_FLAGS_L F = 0 \<longrightarrow>
        tpm2_hierarchy_from_optarg s2u F (Some v) h0 flags = (False, TPM2_RH_LOCKOUT)) \<and>
     (CHR 0x00 \<notin> set v \<and>
      \<not> prefix v ''owner'' \<and> \<not> prefix v ''platform'' \<and> \<not> prefix v ''endorsement'' \<and>
      \<not> prefix v ''null'' \<and> \<not> prefix v ''lockout'' \<and> fst (s2u v 0) \<and>
      \<not> fst (tpm2_hierarchy_from_optarg s2u F (Some v) h0 flags) \<longrightarrow>
        snd (tpm2_hierarchy_from_optarg s2u F (Some v) h0 flags) = snd (s2u v 0))"
proof -
  have tok: "tpm2_hierarchy_from_optarg s2u F (Some v) h0 flags =
      hierarchy_filter F flags (True, hierarchy_of_token v)"
    if "prefix v t" "t \<in> {''owner'', ''platform'', ''endorsement'', ''null'', ''lockout''}"
      "hierarchy_of_token v \<noteq> 0" for t
  proof -
    from that have "CHR 0x00 \<notin> set v"
      by (intro prefix_token_no_nul) auto
    from from_optarg_unfold [OF assms this] that(3) show ?thesis by simp
  qed
  note t = hierarchy_of_token_cases [OF assms]
  have num: "snd (tpm2_hierarchy_from_optarg s2u F (Some v) h0 flags) = snd (s2u v 0)"
    if "CHR 0x00 \<notin> set v" "hierarchy_of_token v = 0"
    using from_optarg_unfold [OF assms that(1), of s2u F h0 flags] that(2)
    by (simp add: hierarchy_filter_def split: prod.splits)
  show ?thesis
    apply (intro conjI impI)
    subgoal using tok [of "''owner''"] by (simp add: t(1) hierarchy_filter_def rh_defs)
    subgoal using tok [of "''platform''"] by (simp add: t(2) hierarchy_filter_def rh_defs)
    subgoal using tok [of "''endorsement''"] by (simp add: t(3) hierarchy_filter_def rh_defs)
    subgoal using tok [of "''null''"] by (simp add: t(4) hierarchy_filter_def rh_defs)
    subgoal using tok [of "''lockout''"] by (simp add: t(5) hierarchy_filter_def rh_defs)
    subgoal using num t(6) by blast
    done
qed

theorem from_optarg_overwrites_output_witness:
  "''o'' \<noteq> [] \<and> prefix ''o'' ''owner'' \<and>
   (0x1E :: 32 word) AND TPM2_HIERARCHY_FLAGS_O
     \<lparr>TPM2_HIERARCHY_FLAGS_O = 1, TPM2_HIERARCHY_FLAGS_P = 2, TPM2_HIERARCHY_FLAGS_E = 4,
      TPM2_HIERARCHY_FLAGS_N = 8, TPM2_HIERARCHY_FLAGS_L = 16\<rparr> = 0 \<and>
   tpm2_hierarchy_from_optarg (\<lambda>s h. (False, h))
     \<lparr>TPM2_HIERARCHY_FLAGS_O = 1, TPM2_HIERARCHY_FLAGS_P = 2, TPM2_HIERARCHY_FLAGS_E = 4,
      TPM2_HIERARCHY_FLAGS_N = 8, TPM2_HIERARCHY_FLAGS_L = 16\<rparr>
     (Some ''o'') 0x81000001 0x1E = (False, 0x40000001)"
  using from_optarg_overwrites_output [of "''o''" "0x1E"
     "\<lparr>TPM2_HIERARCHY_FLAGS_O = 1, TPM2_HIERARCHY_FLAGS_P = 2, TPM2_HIERARCHY_FLAGS_E = 4,
      TPM2_HIERARCHY_FLAGS_N = 8, TPM2_HIERARCHY_FLAGS_L = 16\<rparr>" "\<lambda>s h. (False, h)" "0x81000001"]
  by (simp add: TPM2_RH_OWNER_def)

section \<open>Properties of the release of the outputs\<close>

lemma c_free_NULL: "c_free None H = Some H"
  by (simp add: c_free_def)

text \<open>
  C10. \<open>tpm2_hierarchy_pdata_free\<close> is idempotent: after a call that returns, the four
  output pointers are \<^verbatim>\<open>NULL\<close> (the other fields are untouched), and a second call on the
  resulting object frees nothing and leaves the object and the heap as they are.
\<close>

theorem pdata_free_idempotent:
  assumes "tpm2_hierarchy_pdata_free objdata H = Some (objdata', H')"
  shows "out_creation_data objdata' = None \<and> out_creation_ticket objdata' = None \<and>
         out_hash objdata' = None \<and> out_public objdata' = None \<and>
         pdata_in objdata' = pdata_in objdata \<and> out_handle objdata' = out_handle objdata \<and>
         tpm2_hierarchy_pdata_free objdata' H' = Some (objdata', H')"
proof -
  from assms have o': "objdata' = objdata\<lparr>out_creation_data := None, out_creation_ticket := None,
      out_hash := None, out_public := None\<rparr>"
    by (auto simp: tpm2_hierarchy_pdata_free_def Let_def split: option.splits)
  have again: "tpm2_hierarchy_pdata_free objdata' H' = Some (objdata', H')"
    by (simp add: o' tpm2_hierarchy_pdata_free_def c_free_NULL)
  from o' again show ?thesis by simp
qed

theorem pdata_free_idempotent_witness:
  "tpm2_hierarchy_pdata_free
     \<lparr>pdata_in = (), out_handle = 0x80000000, out_public = Some 4, out_hash = Some 3,
      out_creation_data = Some 1, out_creation_ticket = Some 2\<rparr> {1, 2, 3, 4, 5} =
   Some (\<lparr>pdata_in = (), out_handle = 0x80000000, out_public = None, out_hash = None,
      out_creation_data = None, out_creation_ticket = None\<rparr>, {5}) \<and>
   tpm2_hierarchy_pdata_free
     \<lparr>pdata_in = (), out_handle = 0x80000000, out_public = None, out_hash = None,
      out_creation_data = None, out_creation_ticket = None\<rparr> {5} =
   Some (\<lparr>pdata_in = (), out_handle = 0x80000000, out_public = None, out_hash = None,
      out_creation_data = None, out_creation_ticket = None\<rparr>, {5})"
proof -
  have first: "tpm2_hierarchy_pdata_free
     \<lparr>pdata_in = (), out_handle = 0x80000000, out_public = Some 4, out_hash = Some 3,
      out_creation_data = Some 1, out_creation_ticket = Some 2\<rparr> {1, 2, 3, 4, 5} =
   Some (\<lparr>pdata_in = (), out_handle = 0x80000000, out_public = None, out_hash = None,
      out_creation_data = None, out_creation_ticket = None\<rparr>, {5})"
    by (simp add: tpm2_hierarchy_pdata_free_def c_free_def insert_Diff_if)
  from pdata_free_idempotent [OF first] first show ?thesis by simp
qed

end
